theory Spec2Isabelle
  imports Complex_Main
begin

section \<open>FBPIC main file: the steering of the PIC cycle\<close>

text \<open>
  This theory embeds \<^verbatim>\<open>src/fbpic/main.py\<close>: the function \<^verbatim>\<open>adapt_to_grid\<close> and the
  methods \<^verbatim>\<open>__init__\<close>, \<^verbatim>\<open>step\<close>, \<^verbatim>\<open>deposit\<close> and \<^verbatim>\<open>shift_galilean_boundaries\<close> of the class
  \<^verbatim>\<open>Simulation\<close>.

  Conventions of the embedding:
  \<^item> Python floats are the type \<open>real\<close>: arithmetic is exact, the rounding of IEEE
    doubles is not part of the model. Python ints are \<open>int\<close>.
  \<^item> An exception is a value of the type \<open>error\<close>.
  \<^item> Numpy arrays of coordinates are lists of reals.
\<close>

subsection \<open>Exceptions\<close>

datatype error =
    ValueError string
  | ZeroDivisionError
  | TypeError
  | IndexError

subsection \<open>The function \<^verbatim>\<open>adapt_to_grid\<close>\<close>

text \<open>
  \<^verbatim>\<open>x.min()\<close> of an empty array raises a ValueError in numpy, and \<^verbatim>\<open>x[1]\<close> of an
  array with one element raises an IndexError. The boolean mask
  \<^verbatim>\<open>x[ (x > p_xmin) & (x < p_xmax) ]\<close> keeps the selected elements in the order of \<open>x\<close>.
\<close>

definition adapt_to_grid ::
  "real list \<Rightarrow> real \<Rightarrow> real \<Rightarrow> int \<Rightarrow> int \<Rightarrow> error + (real \<times> real \<times> int)" where
  "adapt_to_grid x p_xmin p_xmax p_nx ncells_empty =
     (if x = [] then Inl (ValueError ''zero-size array to reduction operation minimum which has no identity'')
      else if length x < 2 then Inl IndexError
      else
        let xmin = Min (set x);
            xmax = Max (set x);
            dx = x ! 1 - x ! 0;
            p_xmin1 = (if p_xmin < xmin - 0.5 * dx then xmin - 0.5 * dx else p_xmin);
            p_xmax1 = (if p_xmax > xmax + (0.5 - of_int ncells_empty) * dx
                       then xmax + (0.5 - of_int ncells_empty) * dx else p_xmax);
            x_load = filter (\<lambda>v. v > p_xmin1 \<and> v < p_xmax1) x;
            Npx = int (length x_load) * p_nx
        in if Npx > 0
           then Inr (Min (set x_load) - 0.5 * dx, Max (set x_load) + 0.5 * dx, Npx)
           else Inr (p_xmin1, p_xmax1, Npx))"

subsection \<open>Data of the collaborators\<close>

text \<open>
  The classes \<^verbatim>\<open>Fields\<close>, \<^verbatim>\<open>Particles\<close>, \<^verbatim>\<open>BoundaryCommunicator\<close>, \<^verbatim>\<open>MovingWindow\<close> and
  \<^verbatim>\<open>BoostConverter\<close> are imported by \<^verbatim>\<open>main.py\<close> and defined elsewhere. The records below
  hold the attributes of their objects that \<^verbatim>\<open>main.py\<close> reads or writes.

  An interpolation grid has the position markers \<open>zmin\<close>, \<open>zmax\<close>, the coordinate
  arrays \<open>z\<close> and \<open>r\<close>, and arrays of field values, of which \<^verbatim>\<open>main.py\<close> names \<open>Ez\<close>.
\<close>

record grid =
  zmin :: real
  zmax :: real
  z :: "real list"
  r :: "real list"
  Ez :: "complex list list"

record fields =
  interp :: "grid list"

text \<open>
  Modelled from the spec: the class \<^verbatim>\<open>Fields\<close> is not part of the sources. It keeps one
  interpolation grid per azimuthal mode \<open>m = 0..Nm-1\<close>, each with its own coordinate
  array, so the attribute \<^verbatim>\<open>fld.Nm\<close> is the number of grids in \<^verbatim>\<open>fld.interp\<close>.
\<close>

definition Nm :: "fields \<Rightarrow> nat" where
  "Nm f = length (interp f)"

record moving_window =
  nz_inject :: int

record communicator =
  rank :: int
  size_comm :: int
  n_guard :: int
  moving_win :: "moving_window option"

text \<open>
  A species carries its identity \<open>sid\<close> (the object) and the attribute \<^verbatim>\<open>sorted\<close>.
  Diagnostics, external fields and laser antennas are objects that \<^verbatim>\<open>main.py\<close> only
  calls; they are represented by their identity, a natural number.
\<close>

record species =
  sid :: nat
  sorted_flag :: bool

subsection \<open>Calls to the collaborators\<close>

text \<open>
  Every call that \<^verbatim>\<open>step\<close> and \<^verbatim>\<open>deposit\<close> make to a collaborator, to the GPU transfer
  functions or to the printing functions is recorded, with the arguments that are
  numbers or strings, in the trace \<open>calls\<close> of the simulation. What a collaborator does
  to the data it owns (field values, spectral coefficients, particle arrays, the
  terminal) is not modelled. The one exception is \<^verbatim>\<open>comm.move_grids\<close>, which changes data
  that \<^verbatim>\<open>main.py\<close> itself writes: the counter \<open>nz_inject\<close> and the position markers of the
  grids.
\<close>

datatype event =
    Send_data_to_gpu
  | Receive_data_from_gpu
  | Progression_bar nat int
  | Print_time_taken
  | Diag_write nat int
  | Comm_move_grids real real
  | Comm_exchange_fields string
  | Comm_exchange_particles nat real
  | Species_gather nat
  | Ext_apply_expression nat real
  | Fld_erase string
  | Species_deposit nat string
  | Antenna_deposit nat string
  | Fld_divide_by_volume string
  | Fld_interp2spect string
  | Fld_filter_spect string
  | Species_handle_ionization nat
  | Species_push_p nat
  | Species_halfpush_x nat
  | Antenna_update_v nat real
  | Antenna_halfpush_x nat real
  | Fld_correct_currents
  | Comm_damp_guard_EB
  | Fld_push bool
  | Fld_correct_divE
  | Fld_spect2interp string

subsection \<open>The class \<^verbatim>\<open>Simulation\<close>\<close>

record sim =
  use_cuda :: bool
  v_comoving :: "real option"
  use_galilean :: bool
  comm :: communicator
  exchange_period :: int
  fld :: fields
  ptcl :: "species list"
  dt :: real
  p_nz :: int
  time :: real
  iteration :: int
  filter_currents :: bool
  external_fields :: "nat list"
  diags :: "nat list"
  laser_antennas :: "nat list"
  calls :: "event list"

text \<open>
  What \<^verbatim>\<open>main.py\<close> takes from its imports: the flag \<^verbatim>\<open>cuda_installed\<close>, the physical
  constants \<^verbatim>\<open>e\<close>, \<^verbatim>\<open>m_e\<close>, \<^verbatim>\<open>m_p\<close> of scipy, the methods of \<^verbatim>\<open>BoostConverter\<close> (each maps
  every scalar of the sequence it is given, for the Lorentz factor of the converter),
  the constructors of \<^verbatim>\<open>BoundaryCommunicator\<close>, \<^verbatim>\<open>Fields\<close> and \<^verbatim>\<open>Particles\<close>, the method
  \<^verbatim>\<open>divide_into_domain\<close>, the effect of \<^verbatim>\<open>comm.move_grids(fld, dt, time)\<close> on the moving
  window and on the grids, and the constructor of \<^verbatim>\<open>MovingWindow\<close>. They are parameters of
  the model.
\<close>

record collab =
  cuda_installed :: bool
  e_charge :: real
  m_e :: real
  m_p :: real
  copropag_length :: "real \<Rightarrow> real \<Rightarrow> real"
  static_length :: "real \<Rightarrow> real \<Rightarrow> real"
  static_density :: "real \<Rightarrow> real \<Rightarrow> real"
  longitudinal_momentum :: "real \<Rightarrow> real \<Rightarrow> real"
  BoundaryCommunicator ::
    "int \<Rightarrow> int \<Rightarrow> int option \<Rightarrow> int \<Rightarrow> string \<Rightarrow> int \<Rightarrow> int \<Rightarrow> bool \<Rightarrow> communicator"
  divide_into_domain ::
    "communicator \<Rightarrow> real \<Rightarrow> real \<Rightarrow> real \<Rightarrow> real \<Rightarrow> real \<times> real \<times> real \<times> real \<times> int"
  Fields ::
    "int \<Rightarrow> real \<Rightarrow> int \<Rightarrow> real \<Rightarrow> int \<Rightarrow> real \<Rightarrow> int \<Rightarrow> real \<Rightarrow> real option \<Rightarrow> bool \<Rightarrow> bool
      \<Rightarrow> fields"
  Particles ::
    "real \<Rightarrow> real \<Rightarrow> real \<Rightarrow> int \<Rightarrow> real \<Rightarrow> real \<Rightarrow> int \<Rightarrow> real \<Rightarrow> real \<Rightarrow> int \<Rightarrow> real
      \<Rightarrow> (real \<Rightarrow> real \<Rightarrow> real) option \<Rightarrow> bool \<Rightarrow> real \<Rightarrow> nat \<times> nat \<Rightarrow> string \<Rightarrow> species"
  move_grids :: "moving_window \<Rightarrow> fields \<Rightarrow> real \<Rightarrow> real \<Rightarrow> moving_window \<times> fields"
  MovingWindow ::
    "grid list \<Rightarrow> communicator \<Rightarrow> int \<Rightarrow> real \<Rightarrow> species list \<Rightarrow> real \<Rightarrow> int \<Rightarrow> real
      \<Rightarrow> real \<Rightarrow> real \<Rightarrow> real \<Rightarrow> real \<Rightarrow> real \<Rightarrow> real \<Rightarrow> real option \<Rightarrow> moving_window"

text \<open>The speed of light \<^verbatim>\<open>scipy.constants.c\<close>, in metres per second (exact in SI).\<close>

definition c_light :: real where
  "c_light = 299792458"

subsection \<open>The constructor\<close>

text \<open>The arguments of \<^verbatim>\<open>Simulation.__init__\<close>; \<open>None\<close> is the Python \<^verbatim>\<open>None\<close>.\<close>

record args =
  arg_Nz :: int
  arg_zmax :: real
  arg_Nr :: int
  arg_rmax :: real
  arg_Nm :: int
  arg_dt :: real
  arg_p_zmin :: real
  arg_p_zmax :: real
  arg_p_rmin :: real
  arg_p_rmax :: real
  arg_p_nz :: int
  arg_p_nr :: int
  arg_p_nt :: int
  arg_n_e :: real
  arg_zmin :: real
  arg_n_order :: int
  arg_dens_func :: "(real \<Rightarrow> real \<Rightarrow> real) option"
  arg_filter_currents :: bool
  arg_v_comoving :: "real option"
  arg_use_galilean :: bool
  arg_initialize_ions :: bool
  arg_use_cuda :: bool
  arg_n_guard :: "int option"
  arg_n_damp :: int
  arg_exchange_period :: "int option"
  arg_boundaries :: string
  arg_gamma_boost :: "real option"
  arg_use_all_mpi_ranks :: bool
  arg_particle_shape :: string

text \<open>Python's \<^verbatim>\<open>int()\<close> of a float truncates towards zero.\<close>

definition int_of_float :: "real \<Rightarrow> int" where
  "int_of_float v = (if 0 \<le> v then \<lfloor>v\<rfloor> else \<lceil>v\<rceil>)"

definition guard_region_message :: string where
  "guard_region_message =
     ''Guard region size is too small for chosen '' @ replicate 20 (CHR '' '') @
     ''timestep. In one timestep, a particle can travel more '' @ replicate 20 (CHR '' '') @
     ''than n_guard region cells.''"

text \<open>
  Lines 220 to 242 of \<^verbatim>\<open>__init__\<close>: the period of the particle exchange, from the time
  step and the domain \<open>zmin\<close>, \<open>zmax\<close>, \<open>Nz\<close> that \<^verbatim>\<open>divide_into_domain\<close> returned. A float
  division by zero raises \<^verbatim>\<open>ZeroDivisionError\<close>.
\<close>

definition init_exchange_period ::
  "int option \<Rightarrow> real \<Rightarrow> real \<Rightarrow> real \<Rightarrow> int \<Rightarrow> communicator \<Rightarrow> string \<Rightarrow> error + int" where
  "init_exchange_period exchange_period_arg dt1 zmin1 zmax1 Nz1 comm1 boundaries =
     (case exchange_period_arg of
        None \<Rightarrow>
          if Nz1 = 0 then Inl ZeroDivisionError
          else if (zmax1 - zmin1) / of_int Nz1 = 0 then Inl ZeroDivisionError
          else
            let cells_per_step = 2 * c_light * dt1 / ((zmax1 - zmin1) / of_int Nz1) in
            if cells_per_step = 0 then Inl ZeroDivisionError
            else
              let period = int_of_float (of_int (n_guard comm1 - 3) / cells_per_step);
                  period1 = (if size_comm comm1 = 1 \<and> boundaries = ''periodic'' then 1 else period)
              in if period1 < 1 then Inl (ValueError guard_region_message) else Inr period1
      | Some p \<Rightarrow> Inr p)"

text \<open>
  Lines 203 to 210: the arguments in the boosted frame, in the order
  \<open>zmin\<close>, \<open>zmax\<close>, \<open>dt\<close>, \<open>p_zmin\<close>, \<open>p_zmax\<close>, \<open>n_e\<close>, \<open>uz_m\<close>.
\<close>

definition boost_arguments :: "collab \<Rightarrow> args \<Rightarrow> real \<times> real \<times> real \<times> real \<times> real \<times> real \<times> real" where
  "boost_arguments C a =
     (let uz_m = 0 in
      case arg_gamma_boost a of
        None \<Rightarrow> (arg_zmin a, arg_zmax a, arg_dt a, arg_p_zmin a, arg_p_zmax a, arg_n_e a, uz_m)
      | Some gamma_boost \<Rightarrow>
          (copropag_length C gamma_boost (arg_zmin a),
           copropag_length C gamma_boost (arg_zmax a),
           copropag_length C gamma_boost (arg_dt a),
           static_length C gamma_boost (arg_p_zmin a),
           static_length C gamma_boost (arg_p_zmax a),
           static_density C gamma_boost (arg_n_e a),
           longitudinal_momentum C gamma_boost uz_m))"

text \<open>Lines 212 to 214: the boundary communicator.\<close>

definition init_comm :: "collab \<Rightarrow> args \<Rightarrow> communicator" where
  "init_comm C a =
     BoundaryCommunicator C (arg_Nz a) (arg_Nr a) (arg_n_guard a) (arg_Nm a)
       (arg_boundaries a) (arg_n_order a) (arg_n_damp a) (arg_use_all_mpi_ranks a)"

text \<open>
  Lines 216 to 218: the domain of this process, in the order
  \<open>zmin\<close>, \<open>zmax\<close>, \<open>p_zmin\<close>, \<open>p_zmax\<close>, \<open>Nz\<close>.
\<close>

definition init_domain :: "collab \<Rightarrow> args \<Rightarrow> real \<times> real \<times> real \<times> real \<times> int" where
  "init_domain C a =
     (case boost_arguments C a of
        (zmin1, zmax1, dt1, p_zmin1, p_zmax1, n_e1, uz_m1) \<Rightarrow>
          divide_into_domain C (init_comm C a) zmin1 zmax1 p_zmin1 p_zmax1)"

text \<open>\<^verbatim>\<open>self.fld.interp[0].Ez.shape\<close>\<close>

definition grid_shape_of :: "grid \<Rightarrow> nat \<times> nat" where
  "grid_shape_of g = (length (Ez g), (case Ez g of [] \<Rightarrow> 0 | row # _ \<Rightarrow> length row))"

text \<open>
  The constructor returns the object, or raises. \<^verbatim>\<open>Fields\<close> is given the argument
  \<open>use_galilean\<close> as the caller passed it. \<^verbatim>\<open>self.fld.interp[0]\<close> raises an \<^verbatim>\<open>IndexError\<close> on
  an empty list. What the constructor prints is not modelled.
\<close>

definition init :: "collab \<Rightarrow> args \<Rightarrow> error + sim" where
  "init C a =
     (let use_cuda1 = (if arg_use_cuda a \<and> \<not> cuda_installed C then False else arg_use_cuda a);
          use_galilean1 = (if arg_v_comoving a = None then False else arg_use_galilean a);
          (zmin1, zmax1, dt1, p_zmin1, p_zmax1, n_e1, uz_m1) = boost_arguments C a;
          comm1 = init_comm C a;
          (zmin2, zmax2, p_zmin2, p_zmax2, Nz2) = init_domain C a
      in case init_exchange_period (arg_exchange_period a) dt1 zmin2 zmax2 Nz2 comm1 (arg_boundaries a) of
           Inl err \<Rightarrow> Inl err
         | Inr period \<Rightarrow>
             let fld1 = Fields C Nz2 zmax2 (arg_Nr a) (arg_rmax a) (arg_Nm a) dt1 (arg_n_order a) zmin2
                          (arg_v_comoving a) (arg_use_galilean a) use_cuda1
             in (case interp fld1 of
                   [] \<Rightarrow> Inl IndexError
                 | g0 # _ \<Rightarrow>
                     (case adapt_to_grid (z g0) p_zmin2 p_zmax2 (arg_p_nz a) 0 of
                        Inl err \<Rightarrow> Inl err
                      | Inr (p_zmin3, p_zmax3, Npz) \<Rightarrow>
                          (case adapt_to_grid (r g0) (arg_p_rmin a) (arg_p_rmax a) (arg_p_nr a) 0 of
                             Inl err \<Rightarrow> Inl err
                           | Inr (p_rmin3, p_rmax3, Npr) \<Rightarrow>
                               let grid_shape = grid_shape_of g0;
                                   electrons = Particles C (- e_charge C) (m_e C) n_e1 Npz p_zmin3 p_zmax3
                                     Npr p_rmin3 p_rmax3 (arg_p_nt a) dt1 (arg_dens_func a) use_cuda1 uz_m1
                                     grid_shape (arg_particle_shape a);
                                   ions = Particles C (e_charge C) (m_p C) n_e1 Npz p_zmin3 p_zmax3
                                     Npr p_rmin3 p_rmax3 (arg_p_nt a) dt1 (arg_dens_func a) use_cuda1 uz_m1
                                     grid_shape (arg_particle_shape a)
                               in Inr \<lparr> use_cuda = use_cuda1,
                                        v_comoving = arg_v_comoving a,
                                        use_galilean = use_galilean1,
                                        comm = comm1,
                                        exchange_period = period,
                                        fld = fld1,
                                        ptcl = (if arg_initialize_ions a then [electrons, ions] else [electrons]),
                                        dt = dt1,
                                        p_nz = arg_p_nz a,
                                        time = 0,
                                        iteration = 0,
                                        filter_currents = arg_filter_currents a,
                                        external_fields = [],
                                        diags = [],
                                        laser_antennas = [],
                                        calls = [] \<rparr>))))"

subsection \<open>Statements that change the state or raise\<close>

text \<open>
  A method of \<^verbatim>\<open>Simulation\<close> returns nothing and mutates the object, so it is a function
  from the state to the exception it raised, if any, and the state it left: what a
  method changed before it raised stays changed. \<open>run\<close> executes statements in
  sequence and stops at the first exception.
\<close>

type_synonym action = "sim \<Rightarrow> error option \<times> sim"

primrec run :: "action list \<Rightarrow> action" where
  "run [] s = (None, s)"
| "run (a # as) s = (case a s of (None, s1) \<Rightarrow> run as s1 | (Some err, s1) \<Rightarrow> (Some err, s1))"

definition emit :: "(sim \<Rightarrow> event list) \<Rightarrow> action" where
  "emit evs s = (None, s\<lparr>calls := calls s @ evs s\<rparr>)"

definition call :: "event \<Rightarrow> action" where
  "call ev = emit (\<lambda>s. [ev])"

definition assign :: "(sim \<Rightarrow> sim) \<Rightarrow> action" where
  "assign f s = (None, f s)"

definition raise :: "error \<Rightarrow> action" where
  "raise err s = (Some err, s)"

definition guarded :: "(sim \<Rightarrow> bool) \<Rightarrow> action \<Rightarrow> action" where
  "guarded b a s = (if b s then a s else (None, s))"

text \<open>
  \<open>emit\<close> appends calls to the trace: a loop whose body only calls a collaborator on
  each element of a list appends one call per element, in the order of the list.
  \<open>guarded\<close> is an \<^verbatim>\<open>if\<close> without \<^verbatim>\<open>else\<close>.
\<close>

subsection \<open>The method \<^verbatim>\<open>deposit\<close>\<close>

definition deposit :: "string \<Rightarrow> action" where
  "deposit fieldtype =
     run [
       (if fieldtype \<in> set [''rho_prev'', ''rho_next''] then
          run [
            call (Fld_erase ''rho''),
            emit (\<lambda>s. map (\<lambda>p. Species_deposit (sid p) ''rho'') (ptcl s)),
            emit (\<lambda>s. map (\<lambda>a. Antenna_deposit a ''rho'') (laser_antennas s)),
            call (Fld_divide_by_volume ''rho''),
            call (Comm_exchange_fields ''rho'')]
        else if fieldtype = ''J'' then
          run [
            call (Fld_erase ''J''),
            emit (\<lambda>s. map (\<lambda>p. Species_deposit (sid p) ''J'') (ptcl s)),
            emit (\<lambda>s. map (\<lambda>a. Antenna_deposit a ''J'') (laser_antennas s)),
            call (Fld_divide_by_volume ''J''),
            call (Comm_exchange_fields ''J'')]
        else raise (ValueError (''Unknown fieldtype: '' @ fieldtype))),
       call (Fld_interp2spect fieldtype),
       guarded filter_currents (call (Fld_filter_spect fieldtype))]"

subsection \<open>The method \<^verbatim>\<open>shift_galilean_boundaries\<close>\<close>

text \<open>
  \<^verbatim>\<open>self.v_comoving * 0.5 * self.dt\<close> raises a \<^verbatim>\<open>TypeError\<close> when \<^verbatim>\<open>v_comoving\<close> is \<^verbatim>\<open>None\<close>.
  The loop runs over \<^verbatim>\<open>range(self.fld.Nm)\<close>; \<open>shift_grid\<close> is the three assignments of its
  body on the grid \<^verbatim>\<open>self.fld.interp[m]\<close>, where \<^verbatim>\<open>+=\<close> on the array \<open>z\<close> adds to every
  element.
\<close>

definition shift_grid :: "real \<Rightarrow> grid \<Rightarrow> grid" where
  "shift_grid shift_distance g =
     g\<lparr>zmin := zmin g + shift_distance,
       zmax := zmax g + shift_distance,
       z := map (\<lambda>v. v + shift_distance) (z g)\<rparr>"

definition shift_galilean_boundaries :: action where
  "shift_galilean_boundaries s =
     (case v_comoving s of
        None \<Rightarrow> (Some TypeError, s)
      | Some v \<Rightarrow>
          let shift_distance = v * 0.5 * dt s in
          (None,
           fold (\<lambda>m s1. s1\<lparr>fld := (fld s1)\<lparr>interp :=
                   (interp (fld s1))[m := shift_grid shift_distance (interp (fld s1) ! m)]\<rparr>\<rparr>)
                [0..<Nm (fld s)] s))"

subsection \<open>The method \<^verbatim>\<open>step\<close>\<close>

text \<open>
  \<^verbatim>\<open>self.comm.move_grids(fld, self.dt, self.time)\<close>, for the attached moving window \<open>w\<close>.
\<close>

definition comm_move_grids :: "collab \<Rightarrow> moving_window \<Rightarrow> action" where
  "comm_move_grids C w s =
     (let (w1, fld1) = move_grids C w (fld s) (dt s) (time s)
      in (None, s\<lparr>comm := (comm s)\<lparr>moving_win := Some w1\<rparr>,
                   fld := fld1,
                   calls := calls s @ [Comm_move_grids (dt s) (time s)]\<rparr>))"

text \<open>\<^verbatim>\<open>self.comm.moving_win.nz_inject = 0\<close>\<close>

definition reset_nz_inject :: "sim \<Rightarrow> sim" where
  "reset_nz_inject s =
     s\<lparr>comm := (comm s)\<lparr>moving_win := map_option (\<lambda>w. w\<lparr>nz_inject := 0\<rparr>) (moving_win (comm s))\<rparr>\<rparr>"

text \<open>
  The statements of the body of the loop \<^verbatim>\<open>for i_step in range(N)\<close>, in order. The test
  \<^verbatim>\<open>self.iteration % self.exchange_period == 0 or i_step == 0\<close> evaluates the modulo
  first, which raises \<^verbatim>\<open>ZeroDivisionError\<close> when \<open>exchange_period\<close> is 0; on integers
  Python's \<^verbatim>\<open>%\<close> is \<open>mod\<close>.
\<close>

definition step_statements ::
  "collab \<Rightarrow> int \<Rightarrow> bool \<Rightarrow> bool \<Rightarrow> bool \<Rightarrow> bool \<Rightarrow> bool \<Rightarrow> bool \<Rightarrow> nat \<Rightarrow> action list" where
  "step_statements C N correct_currents correct_divE use_true_rho move_positions move_momenta
       show_progress i_step =
       [
       guarded (\<lambda>s. show_progress \<and> rank (comm s) = 0) (call (Progression_bar i_step N)),
       emit (\<lambda>s. map (\<lambda>d. Diag_write d (iteration s)) (diags s)),
       (\<lambda>s. case moving_win (comm s) of None \<Rightarrow> (None, s) | Some w \<Rightarrow> comm_move_grids C w s),
       call (Comm_exchange_fields ''EB''),
       (\<lambda>s. if exchange_period s = 0 then raise ZeroDivisionError s
            else guarded (\<lambda>s. iteration s mod exchange_period s = 0 \<or> i_step = 0)
                   (run [
                      emit (\<lambda>s. map (\<lambda>p. Comm_exchange_particles (sid p) (time s)) (ptcl s)),
                      guarded (\<lambda>s. moving_win (comm s) \<noteq> None) (assign reset_nz_inject)]) s),
       emit (\<lambda>s. map (\<lambda>p. Species_gather (sid p)) (ptcl s)),
       emit (\<lambda>s. map (\<lambda>x. Ext_apply_expression x (time s)) (external_fields s)),
       assign (\<lambda>s. s\<lparr>ptcl := map (\<lambda>p. p\<lparr>sorted_flag := False\<rparr>) (ptcl s)\<rparr>),
       deposit ''rho_prev'',
       emit (\<lambda>s. map (\<lambda>p. Species_handle_ionization (sid p)) (ptcl s)),
       guarded (\<lambda>s. move_momenta) (emit (\<lambda>s. map (\<lambda>p. Species_push_p (sid p)) (ptcl s))),
       guarded (\<lambda>s. move_positions) (emit (\<lambda>s. map (\<lambda>p. Species_halfpush_x (sid p)) (ptcl s))),
       emit (\<lambda>s. concat (map (\<lambda>a. [Antenna_update_v a (time s + 0.5 * dt s),
                                     Antenna_halfpush_x a (dt s)]) (laser_antennas s))),
       guarded use_galilean shift_galilean_boundaries,
       deposit ''J'',
       guarded (\<lambda>s. move_positions) (emit (\<lambda>s. map (\<lambda>p. Species_halfpush_x (sid p)) (ptcl s))),
       emit (\<lambda>s. map (\<lambda>a. Antenna_halfpush_x a (dt s)) (laser_antennas s)),
       guarded use_galilean shift_galilean_boundaries,
       deposit ''rho_next'',
       guarded (\<lambda>s. correct_currents) (call Fld_correct_currents),
       call Comm_damp_guard_EB,
       call (Fld_interp2spect ''E''),
       call (Fld_interp2spect ''B''),
       call (Fld_push use_true_rho),
       guarded (\<lambda>s. correct_divE) (call Fld_correct_divE),
       call (Fld_spect2interp ''E''),
       call (Fld_spect2interp ''B''),
       assign (\<lambda>s. s\<lparr>time := time s + dt s\<rparr>),
       assign (\<lambda>s. s\<lparr>iteration := iteration s + 1\<rparr>)]"

text \<open>One iteration of the loop.\<close>

definition step_iteration ::
  "collab \<Rightarrow> int \<Rightarrow> bool \<Rightarrow> bool \<Rightarrow> bool \<Rightarrow> bool \<Rightarrow> bool \<Rightarrow> bool \<Rightarrow> nat \<Rightarrow> action" where
  "step_iteration C N correct_currents correct_divE use_true_rho move_positions move_momenta
       show_progress i_step =
     run (step_statements C N correct_currents correct_divE use_true_rho move_positions move_momenta
            show_progress i_step)"

text \<open>\<^verbatim>\<open>range(N)\<close> is empty when \<open>N\<close> is negative.\<close>

definition step ::
  "collab \<Rightarrow> int \<Rightarrow> bool \<Rightarrow> bool \<Rightarrow> bool \<Rightarrow> bool \<Rightarrow> bool \<Rightarrow> bool \<Rightarrow> action" where
  "step C N correct_currents correct_divE use_true_rho move_positions move_momenta show_progress =
     run [
       guarded use_cuda (call Send_data_to_gpu),
       run (map (step_iteration C N correct_currents correct_divE use_true_rho move_positions
                   move_momenta show_progress) [0..<nat N]),
       guarded use_cuda (call Receive_data_from_gpu),
       guarded (\<lambda>s. show_progress \<and> rank (comm s) = 0) (call Print_time_taken)]"

subsection \<open>The method \<^verbatim>\<open>set_moving_window\<close>\<close>

definition set_moving_window ::
  "collab \<Rightarrow> real \<Rightarrow> real \<Rightarrow> real \<Rightarrow> real \<Rightarrow> real \<Rightarrow> real \<Rightarrow> real \<Rightarrow> real option \<Rightarrow> sim \<Rightarrow> sim" where
  "set_moving_window C v ux_m uy_m uz_m ux_th uy_th uz_th gamma_boost s =
     s\<lparr>comm := (comm s)\<lparr>moving_win :=
         Some (MovingWindow C (interp (fld s)) (comm s) (exchange_period s) (dt s) (ptcl s) v
                 (p_nz s) (time s) ux_m uy_m uz_m ux_th uy_th uz_th gamma_boost)\<rparr>\<rparr>"

subsection \<open>Runs\<close>

text \<open>
  The states of a simulation object during a run: the object as constructed, and the
  object after any sequence of calls of \<^verbatim>\<open>step\<close> (including a call that raised) and of
  \<^verbatim>\<open>set_moving_window\<close>.
\<close>

inductive run_from :: "collab \<Rightarrow> sim \<Rightarrow> sim \<Rightarrow> bool" for C :: collab and s0 :: sim where
  constructed: "run_from C s0 s0"
| stepped:
    "run_from C s0 s \<Longrightarrow>
     step C N correct_currents correct_divE use_true_rho move_positions move_momenta show_progress s
       = (err, s1) \<Longrightarrow>
     run_from C s0 s1"
| window_set:
    "run_from C s0 s \<Longrightarrow>
     run_from C s0 (set_moving_window C v ux_m uy_m uz_m ux_th uy_th uz_th gamma_boost s)"

subsection \<open>Concrete collaborators, arguments and states\<close>

text \<open>
  The theorems below are instantiated on these inputs. The collaborators are simple
  stand-ins: one process of rank 0, a grid of two cells in each direction for every mode,
  a moving window that advances by one cell at each call of \<^verbatim>\<open>move_grids\<close>.
\<close>

definition example_grid :: "real \<Rightarrow> real \<Rightarrow> real \<Rightarrow> grid" where
  "example_grid lo hi rmax1 =
     \<lparr> zmin = lo, zmax = hi,
       z = [lo + (hi - lo) / 4, lo + 3 * (hi - lo) / 4],
       r = [rmax1 / 4, 3 * rmax1 / 4],
       Ez = [[0, 0], [0, 0]] \<rparr>"

definition example_collab :: collab where
  "example_collab =
     \<lparr> cuda_installed = False,
       e_charge = 1,
       m_e = 1,
       m_p = 1836,
       copropag_length = (\<lambda>g v. g * v),
       static_length = (\<lambda>g v. v / g),
       static_density = (\<lambda>g v. g * v),
       longitudinal_momentum = (\<lambda>g v. v - g),
       BoundaryCommunicator = (\<lambda>Nz1 Nr1 n_guard1 Nm1 boundaries n_order n_damp use_all_mpi_ranks.
          \<lparr> rank = 0, size_comm = 1,
            n_guard = (case n_guard1 of None \<Rightarrow> 30 | Some g \<Rightarrow> g),
            moving_win = None \<rparr>),
       divide_into_domain = (\<lambda>comm1 lo hi p_lo p_hi. (lo, hi, p_lo, p_hi, 64)),
       Fields = (\<lambda>Nz1 hi Nr1 rmax1 Nm1 dt1 n_order lo v use_galilean1 use_cuda1.
          \<lparr> interp = replicate (nat Nm1) (example_grid lo hi rmax1) \<rparr>),
       Particles = (\<lambda>q m n Npz p_lo p_hi Npr p_rlo p_rhi Nptheta dt1 dens_func use_cuda1 uz_m
                      grid_shape particle_shape.
          \<lparr> sid = (if q < 0 then 0 else 1), sorted_flag = True \<rparr>),
       move_grids = (\<lambda>w f dt1 t.
          (w\<lparr>nz_inject := nz_inject w + 1\<rparr>,
           f\<lparr>interp := map (\<lambda>g. g\<lparr>zmin := zmin g + 1, zmax := zmax g + 1\<rparr>) (interp f)\<rparr>)),
       MovingWindow = (\<lambda>grids comm1 period dt1 species_list v p_nz1 t ux_m uy_m uz_m ux_th uy_th
                         uz_th gamma_boost.
          \<lparr> nz_inject = 0 \<rparr>) \<rparr>"

text \<open>
  The scenario of the specification: 64 cells between 0 and 20 micrometres, 20 guard
  cells, a time step of \<^verbatim>\<open>1e-16\<close> seconds, open boundaries. No comoving velocity is given,
  and \<open>use_galilean\<close> is asked for.
\<close>

definition example_args :: args where
  "example_args =
     \<lparr> arg_Nz = 64, arg_zmax = 20 / 10 ^ 6, arg_Nr = 32, arg_rmax = 20 / 10 ^ 6, arg_Nm = 2,
       arg_dt = 1 / 10 ^ 16,
       arg_p_zmin = 0, arg_p_zmax = 20 / 10 ^ 6, arg_p_rmin = 0, arg_p_rmax = 20 / 10 ^ 6,
       arg_p_nz = 2, arg_p_nr = 2, arg_p_nt = 4, arg_n_e = 10 ^ 24, arg_zmin = 0,
       arg_n_order = - 1, arg_dens_func = None, arg_filter_currents = True,
       arg_v_comoving = None, arg_use_galilean = True, arg_initialize_ions = False,
       arg_use_cuda = False, arg_n_guard = Some 20, arg_n_damp = 30,
       arg_exchange_period = None, arg_boundaries = ''open'', arg_gamma_boost = None,
       arg_use_all_mpi_ranks = True, arg_particle_shape = ''linear'' \<rparr>"

text \<open>
  A simulation in the middle of a run, in a Galilean frame of velocity 2 with a moving
  window attached, one species, one diagnostic and one laser antenna.
\<close>

definition example_sim :: sim where
  "example_sim =
     \<lparr> use_cuda = False, v_comoving = Some 2, use_galilean = True,
       comm = \<lparr> rank = 0, size_comm = 1, n_guard = 20, moving_win = Some \<lparr> nz_inject = 5 \<rparr> \<rparr>,
       exchange_period = 3,
       fld = \<lparr> interp = [example_grid 0 4 2] \<rparr>,
       ptcl = [\<lparr> sid = 0, sorted_flag = True \<rparr>],
       dt = 1 / 2, p_nz = 2, time = 2, iteration = 4, filter_currents = True,
       external_fields = [], diags = [3], laser_antennas = [7], calls = [] \<rparr>"

section \<open>Properties\<close>

subsection \<open>Grid snapping\<close>

text \<open>
  On a grid of at least two points \<^verbatim>\<open>adapt_to_grid\<close> returns, and its two tests are a
  maximum and a minimum.
\<close>

lemma adapt_to_grid_eq:
  assumes "2 \<le> length x"
  shows "adapt_to_grid x p_xmin p_xmax p_nx nce =
    (let dx = x ! 1 - x ! 0;
         lo = max p_xmin (Min (set x) - 0.5 * dx);
         hi = min p_xmax (Max (set x) + (0.5 - of_int nce) * dx);
         sel = filter (\<lambda>v. lo < v \<and> v < hi) x;
         Npx = int (length sel) * p_nx
     in Inr (if 0 < Npx then (Min (set sel) - 0.5 * dx, Max (set sel) + 0.5 * dx, Npx)
             else (lo, hi, Npx)))"
proof -
  have ne: "x \<noteq> []" "\<not> length x < 2" using assms by auto
  have a: "(if p < l then l else p) = max p l" for p l :: real by (simp add: max_def)
  have b: "(if p > h then h else p) = min p h" for p h :: real by (simp add: min_def)
  show ?thesis
    unfolding adapt_to_grid_def Let_def a b using ne by simp
qed

lemma adapt_to_grid_Inr_length:
  "adapt_to_grid x p_xmin p_xmax p_nx nce = Inr res \<Longrightarrow> 2 \<le> length x"
  by (auto simp: adapt_to_grid_def split: if_splits)

text \<open>
  Claim C7. For a grid \<open>x\<close> of at least two points and a number \<open>p_nx \<ge> 0\<close> of particles per
  grid point, \<^verbatim>\<open>adapt_to_grid\<close> clamps \<open>p_xmin\<close> up to at least \<open>min(x) - 0.5 dx\<close> and \<open>p_xmax\<close>
  down to at most \<open>max(x) + (0.5 - ncells_empty) dx\<close>, where \<open>dx = x[1] - x[0]\<close>; it selects
  the grid points strictly between the clamped bounds; it returns the number of
  selected points times \<open>p_nx\<close> as the particle count; when the count is not zero the
  returned bounds are the least selected point minus \<open>0.5 dx\<close> and the greatest plus
  \<open>0.5 dx\<close>; when no point is selected the count is zero and the returned bounds are
  the clamped ones. The grid need not be increasing for this.
\<close>

theorem adapt_to_grid_snaps:
  assumes "2 \<le> length x" and "0 \<le> p_nx"
  shows "let dx = x ! 1 - x ! 0;
             lo = max p_xmin (Min (set x) - 0.5 * dx);
             hi = min p_xmax (Max (set x) + (0.5 - of_int ncells_empty) * dx);
             sel = filter (\<lambda>v. lo < v \<and> v < hi) x
         in \<exists>a b Npx. adapt_to_grid x p_xmin p_xmax p_nx ncells_empty = Inr (a, b, Npx) \<and>
              Npx = int (length sel) * p_nx \<and>
              (Npx \<noteq> 0 \<longrightarrow> a = Min (set sel) - 0.5 * dx \<and> b = Max (set sel) + 0.5 * dx) \<and>
              (sel = [] \<longrightarrow> Npx = 0 \<and> a = lo \<and> b = hi)"
proof -
  have nn: "0 \<le> int (length ys) * p_nx" for ys :: "real list"
    using assms(2) by simp
  show ?thesis
    unfolding adapt_to_grid_eq [OF assms(1)] Let_def
    using nn by (auto simp: less_le)
qed

theorem adapt_to_grid_snaps_witness:
  "2 \<le> length [0, 1, 2 :: real] \<and> (0::int) \<le> 3 \<and>
   adapt_to_grid [0, 1, 2] (1 / 5) (17 / 10) 3 0 = Inr (1 / 2, 3 / 2, 3)"
proof -
  have h1: "2 \<le> length [0, 1, 2 :: real]" by simp
  have h2: "(0::int) \<le> 3" by simp
  from adapt_to_grid_snaps [OF h1 h2, of "1 / 5" "17 / 10" 0]
  have "adapt_to_grid [0, 1, 2] (1 / 5) (17 / 10) 3 0 = Inr (1 / 2, 3 / 2, 3)"
    by (auto simp: Let_def)
  with h1 h2 show ?thesis by blast
qed

text \<open>
  The claim C8, idempotence on every strictly increasing grid, fails: the points 5 and 6
  of the grid 0, 4, 5, 6 are closer than half of \<open>dx = 4\<close>. With \<open>p_xmin = 5\<close> only the point
  6 is selected and the lower bound snaps to \<open>6 - 2 = 4\<close>; applied again, the interval
  from 4 also contains the point 5.
\<close>

theorem adapt_to_grid_not_idempotent:
  "sorted_wrt (<) [0, 4, 5, 6 :: real] \<and>
   adapt_to_grid [0, 4, 5, 6] 5 100 1 0 = Inr (4, 8, 1) \<and>
   adapt_to_grid [0, 4, 5, 6] 4 8 1 0 = Inr (3, 8, 2)"
  by (simp add: adapt_to_grid_def Let_def)

text \<open>
  Claim C8, amended. On a strictly increasing grid whose points are at least \<open>0.5 dx\<close>
  apart, where \<open>dx = x[1] - x[0]\<close>, applying \<^verbatim>\<open>adapt_to_grid\<close> to the bounds it returned, with
  the same \<open>x\<close>, \<open>p_nx\<close> and \<open>ncells_empty\<close>, returns the same bounds and the same particle
  count, for all input bounds and every \<open>p_nx\<close>. Every uniform grid is such a grid.
\<close>

theorem adapt_to_grid_idempotent:
  assumes first: "adapt_to_grid x p_xmin p_xmax p_nx ncells_empty = Inr (a, b, n)"
    and incr: "sorted_wrt (<) x"
    and sep: "\<forall>p\<in>set x. \<forall>q\<in>set x. p < q \<longrightarrow> 0.5 * (x ! 1 - x ! 0) \<le> q - p"
  shows "adapt_to_grid x a b p_nx ncells_empty = Inr (a, b, n)"
proof -
  define dx where "dx = x ! 1 - x ! 0"
  define L where "L = Min (set x) - 0.5 * dx"
  define U where "U = Max (set x) + (0.5 - of_int ncells_empty) * dx"
  define lo where "lo = max p_xmin L"
  define hi where "hi = min p_xmax U"
  define sel where "sel = filter (\<lambda>v. lo < v \<and> v < hi) x"
  define Npx where "Npx = int (length sel) * p_nx"
  have len: "2 \<le> length x"
    using first by (rule adapt_to_grid_Inr_length)
  have dx_pos: "0 < dx"
    using incr len unfolding dx_def by (simp add: sorted_wrt_iff_nth_less)
  have eq1: "adapt_to_grid x p_xmin p_xmax p_nx ncells_empty =
      Inr (if 0 < Npx then (Min (set sel) - 0.5 * dx, Max (set sel) + 0.5 * dx, Npx)
           else (lo, hi, Npx))"
    by (simp only: adapt_to_grid_eq [OF len] Let_def Npx_def sel_def lo_def hi_def L_def U_def dx_def)
  have res1: "(a, b, n) = (if 0 < Npx then (Min (set sel) - 0.5 * dx, Max (set sel) + 0.5 * dx, Npx)
                           else (lo, hi, Npx))"
    using first unfolding eq1 by simp
  have second: "adapt_to_grid x a b p_nx ncells_empty =
      (let sel' = filter (\<lambda>v. max a L < v \<and> v < min b U) x; Npx' = int (length sel') * p_nx
       in Inr (if 0 < Npx' then (Min (set sel') - 0.5 * dx, Max (set sel') + 0.5 * dx, Npx')
               else (max a L, min b U, Npx')))"
    by (simp only: adapt_to_grid_eq [OF len] Let_def L_def U_def dx_def)
  show ?thesis
  proof (cases "0 < Npx")
    case False
    then have abn: "a = lo" "b = hi" "n = Npx" using res1 by simp_all
    have "max a L = lo" "min b U = hi"
      unfolding abn lo_def hi_def by simp_all
    then show ?thesis
      unfolding second Let_def using False abn
      by (simp add: sel_def [symmetric] Npx_def [symmetric])
  next
    case True
    then have abn: "a = Min (set sel) - 0.5 * dx" "b = Max (set sel) + 0.5 * dx" "n = Npx"
      using res1 by simp_all
    have sel_ne: "sel \<noteq> []"
      using True unfolding Npx_def by auto
    then have fin: "finite (set sel)" "set sel \<noteq> {}" by simp_all
    have m_in: "Min (set sel) \<in> set sel" and M_in: "Max (set sel) \<in> set sel"
      using fin by simp_all
    have sub: "set sel \<subseteq> set x" unfolding sel_def by auto
    have m_x: "Min (set sel) \<in> set x" and M_x: "Max (set sel) \<in> set x"
      using m_in M_in sub by auto
    have m_lo: "lo < Min (set sel)" and M_hi: "Max (set sel) < hi"
      using m_in M_in unfolding sel_def by auto
    have "Min (set x) \<le> Min (set sel)"
      using m_x by simp
    then have lo': "max a L = a"
      unfolding abn L_def by simp
    have same: "(max a L < v \<and> v < min b U) = (lo < v \<and> v < hi)" if v: "v \<in> set x" for v
    proof
      assume h: "lo < v \<and> v < hi"
      then have vsel: "v \<in> set sel" using v unfolding sel_def by simp
      have "Min (set sel) \<le> v" "v \<le> Max (set sel)" using vsel by simp_all
      moreover have "v < U" using h unfolding hi_def by simp
      ultimately show "max a L < v \<and> v < min b U"
        unfolding lo' using dx_pos unfolding abn by simp
    next
      assume h: "max a L < v \<and> v < min b U"
      then have h1: "Min (set sel) - 0.5 * dx < v" and h2: "v < Max (set sel) + 0.5 * dx"
        unfolding lo' unfolding abn by simp_all
      have "Min (set sel) \<le> v"
      proof (rule ccontr)
        assume "\<not> Min (set sel) \<le> v"
        then have "v < Min (set sel)" by simp
        then have "0.5 * dx \<le> Min (set sel) - v"
          using sep v m_x unfolding dx_def by blast
        then show False using h1 by simp
      qed
      moreover have "v \<le> Max (set sel)"
      proof (rule ccontr)
        assume "\<not> v \<le> Max (set sel)"
        then have "Max (set sel) < v" by simp
        then have "0.5 * dx \<le> v - Max (set sel)"
          using sep v M_x unfolding dx_def by blast
        then show False using h2 by simp
      qed
      ultimately show "lo < v \<and> v < hi"
        using m_lo M_hi by simp
    qed
    have sel': "filter (\<lambda>v. max a L < v \<and> v < min b U) x = sel"
      unfolding sel_def by (rule filter_cong [OF refl]) (rule same)
    show ?thesis
      unfolding second Let_def sel' using True abn
      by (simp add: Npx_def [symmetric])
  qed
qed

theorem adapt_to_grid_idempotent_witness:
  "adapt_to_grid [0, 1, 2, 3] (1 / 5) 10 2 1 = Inr (1 / 2, 5 / 2, 4) \<and>
   sorted_wrt (<) [0, 1, 2, 3 :: real] \<and>
   adapt_to_grid [0, 1, 2, 3] (1 / 2) (5 / 2) 2 1 = Inr (1 / 2, 5 / 2, 4)"
proof -
  have f: "adapt_to_grid [0, 1, 2, 3] (1 / 5) 10 2 1 = Inr (1 / 2, 5 / 2, 4)"
    by (simp add: adapt_to_grid_def Let_def)
  have s: "sorted_wrt (<) [0, 1, 2, 3 :: real]" by simp
  have sep: "\<forall>p\<in>set [0, 1, 2, 3 :: real]. \<forall>q\<in>set [0, 1, 2, 3].
      p < q \<longrightarrow> 0.5 * ([0, 1, 2, 3] ! 1 - [0, 1, 2, 3] ! 0) \<le> q - p"
    by simp
  from adapt_to_grid_idempotent [OF f s sep] f s show ?thesis by blast
qed

text \<open>A grid of constant positive step is strictly increasing and its points are a step apart.\<close>

lemma uniform_grid_separated:
  assumes uni: "\<forall>i<length x. x ! i = x0 + real i * d" and d: "0 < d" and len: "2 \<le> length x"
  shows "sorted_wrt (<) x \<and>
         (\<forall>p\<in>set x. \<forall>q\<in>set x. p < q \<longrightarrow> 0.5 * (x ! 1 - x ! 0) \<le> q - p)"
proof
  show "sorted_wrt (<) x"
    using uni d by (simp add: sorted_wrt_iff_nth_less)
  have "0 < length x" "1 < length x" using len by auto
  then have "x ! 0 = x0 + real 0 * d" "x ! 1 = x0 + real 1 * d"
    using uni by blast+
  then have step: "x ! 1 - x ! 0 = d" by simp
  show "\<forall>p\<in>set x. \<forall>q\<in>set x. p < q \<longrightarrow> 0.5 * (x ! 1 - x ! 0) \<le> q - p"
  proof (intro ballI impI)
    fix p q assume "p \<in> set x" "q \<in> set x" "p < q"
    then obtain i j where ij: "i < length x" "j < length x" "p = x ! i" "q = x ! j"
      by (metis in_set_conv_nth)
    then have pq: "p = x0 + real i * d" "q = x0 + real j * d" using uni by simp_all
    with \<open>p < q\<close> d have "i < j" by (simp add: mult_less_cancel_right)
    then have "real i + 1 \<le> real j" by simp
    then have "(real i + 1) * d \<le> real j * d" using d by (simp only: mult_le_cancel_right, simp)
    then have "d \<le> q - p" unfolding pq by (simp add: algebra_simps)
    then show "0.5 * (x ! 1 - x ! 0) \<le> q - p" unfolding step using d by simp
  qed
qed

subsection \<open>The effect of the statements\<close>

lemma list_update_map_take_drop:
  assumes "n < length xs"
  shows "(map f (take n xs) @ drop n xs)[n := f ((map f (take n xs) @ drop n xs) ! n)] =
         map f (take (Suc n) xs) @ drop (Suc n) xs"
proof -
  have l: "length (map f (take n xs)) = n" using assms by simp
  have nth: "(map f (take n xs) @ drop n xs) ! n = xs ! n"
    using assms by (simp add: nth_append)
  have "(map f (take n xs) @ drop n xs)[n := y] = map f (take n xs) @ (drop n xs)[0 := y]" for y
    using l by (simp add: list_update_append)
  moreover have "(drop n xs)[0 := y] = y # drop (Suc n) xs" for y
    using assms by (simp add: Cons_nth_drop_Suc [symmetric])
  ultimately show ?thesis
    unfolding nth using assms by (simp add: take_Suc_conv_app_nth)
qed

text \<open>The loop over the modes updates every grid of the list.\<close>

lemma fold_interp_update:
  "n \<le> length (interp (fld s)) \<Longrightarrow>
   fold (\<lambda>m s1. s1\<lparr>fld := (fld s1)\<lparr>interp :=
           (interp (fld s1))[m := f (interp (fld s1) ! m)]\<rparr>\<rparr>) [0..<n] s =
   s\<lparr>fld := (fld s)\<lparr>interp := map f (take n (interp (fld s))) @ drop n (interp (fld s))\<rparr>\<rparr>"
proof (induction n)
  case 0
  show ?case by simp
next
  case (Suc n)
  then have n: "n < length (interp (fld s))" and IH: "n \<le> length (interp (fld s))" by simp_all
  show ?case
    using list_update_map_take_drop [OF n, of f]
    by (simp add: Suc.IH [OF IH])
qed

lemma shift_galilean_boundaries_Some:
  assumes "v_comoving s = Some v"
  shows "shift_galilean_boundaries s =
    (None, s\<lparr>fld := (fld s)\<lparr>interp := map (shift_grid (v * 0.5 * dt s)) (interp (fld s))\<rparr>\<rparr>)"
  using assms fold_interp_update [of "length (interp (fld s))" s "shift_grid (v * 0.5 * dt s)"]
  by (simp add: shift_galilean_boundaries_def Nm_def Let_def)

lemma guarded_emit:
  "guarded b (emit f) s = (None, s\<lparr>calls := calls s @ (if b s then f s else [])\<rparr>)"
  by (simp add: guarded_def emit_def)

lemma guarded_shift_True:
  "use_galilean s \<Longrightarrow> v_comoving s = Some v \<Longrightarrow>
   guarded use_galilean shift_galilean_boundaries s =
     (None, s\<lparr>fld := (fld s)\<lparr>interp := map (shift_grid (v * 0.5 * dt s)) (interp (fld s))\<rparr>\<rparr>)"
  by (simp add: guarded_def shift_galilean_boundaries_Some)

lemma guarded_shift_False:
  "\<not> use_galilean s \<Longrightarrow> guarded use_galilean shift_galilean_boundaries s = (None, s)"
  by (simp add: guarded_def)

lemma exchange_block:
  "guarded b (run [emit f, guarded (\<lambda>s. moving_win (comm s) \<noteq> None) (assign reset_nz_inject)]) s =
   (None, s\<lparr>comm := (comm s)\<lparr>moving_win :=
                (if b s then map_option (\<lambda>w. w\<lparr>nz_inject := 0\<rparr>) (moving_win (comm s))
                 else moving_win (comm s))\<rparr>,
             calls := calls s @ (if b s then f s else [])\<rparr>)"
  by (cases "moving_win (comm s)") (simp_all add: guarded_def emit_def assign_def reset_nz_inject_def)

lemma exchange_block_ex:
  "guarded b (run [emit f, guarded (\<lambda>s. \<exists>y. moving_win (comm s) = Some y) (assign reset_nz_inject)]) s =
   (None, s\<lparr>comm := (comm s)\<lparr>moving_win :=
                (if b s then map_option (\<lambda>w. w\<lparr>nz_inject := 0\<rparr>) (moving_win (comm s))
                 else moving_win (comm s))\<rparr>,
             calls := calls s @ (if b s then f s else [])\<rparr>)"
  using exchange_block [of b f s] by (simp only: not_None_eq)

lemma move_grids_block:
  "(case moving_win (comm s) of None \<Rightarrow> (None, s) | Some w \<Rightarrow> comm_move_grids C w s) =
   (None, s\<lparr>comm := (comm s)\<lparr>moving_win :=
                 map_option (\<lambda>w. fst (move_grids C w (fld s) (dt s) (time s))) (moving_win (comm s))\<rparr>,
             fld := (case moving_win (comm s) of None \<Rightarrow> fld s
                     | Some w \<Rightarrow> snd (move_grids C w (fld s) (dt s) (time s))),
             calls := calls s @ (case moving_win (comm s) of None \<Rightarrow> []
                     | Some w \<Rightarrow> [Comm_move_grids (dt s) (time s)])\<rparr>)"
  by (cases "moving_win (comm s)") (simp_all add: comm_move_grids_def split: prod.split)

lemma deposit_rho:
  assumes "fieldtype = ''rho_prev'' \<or> fieldtype = ''rho_next''"
  shows "deposit fieldtype s =
    (None, s\<lparr>calls := calls s @ [Fld_erase ''rho''] @
        map (\<lambda>p. Species_deposit (sid p) ''rho'') (ptcl s) @
        map (\<lambda>a. Antenna_deposit a ''rho'') (laser_antennas s) @
        [Fld_divide_by_volume ''rho'', Comm_exchange_fields ''rho'', Fld_interp2spect fieldtype] @
        (if filter_currents s then [Fld_filter_spect fieldtype] else [])\<rparr>)"
  using assms by (auto simp add: deposit_def emit_def call_def guarded_emit)

lemma deposit_J:
  shows "deposit ''J'' s =
    (None, s\<lparr>calls := calls s @ [Fld_erase ''J''] @
        map (\<lambda>p. Species_deposit (sid p) ''J'') (ptcl s) @
        map (\<lambda>a. Antenna_deposit a ''J'') (laser_antennas s) @
        [Fld_divide_by_volume ''J'', Comm_exchange_fields ''J'', Fld_interp2spect ''J''] @
        (if filter_currents s then [Fld_filter_spect ''J''] else [])\<rparr>)"
  by (simp add: deposit_def emit_def call_def guarded_emit)

text \<open>
  One iteration that raises nothing, in closed form: the state it leaves and the calls
  it makes, in order.
\<close>

lemma step_iteration_eq:
  fixes s :: sim and i_step :: nat and C :: collab and move_positions :: bool
  defines "X \<equiv> iteration s mod exchange_period s = 0 \<or> i_step = 0"
  defines "win1 \<equiv> map_option (\<lambda>w. fst (move_grids C w (fld s) (dt s) (time s))) (moving_win (comm s))"
  defines "fld1 \<equiv> (case moving_win (comm s) of None \<Rightarrow> fld s
                     | Some w \<Rightarrow> snd (move_grids C w (fld s) (dt s) (time s)))"
  defines "dep \<equiv> \<lambda>k ft. [Fld_erase k] @
        map (\<lambda>p. Species_deposit (sid p) k) (ptcl s) @
        map (\<lambda>a. Antenna_deposit a k) (laser_antennas s) @
        [Fld_divide_by_volume k, Comm_exchange_fields k, Fld_interp2spect ft] @
        (if filter_currents s then [Fld_filter_spect ft] else [])"
  defines "halfpush \<equiv> (if move_positions then map (\<lambda>p. Species_halfpush_x (sid p)) (ptcl s) else [])"
  assumes ep: "exchange_period s \<noteq> 0"
    and gal: "use_galilean s \<longrightarrow> v_comoving s = Some v"
  shows "step_iteration C N correct_currents correct_divE use_true_rho move_positions move_momenta
           show_progress i_step s =
    (None,
     s\<lparr>comm := (comm s)\<lparr>moving_win :=
          (if X then map_option (\<lambda>w. w\<lparr>nz_inject := 0\<rparr>) win1 else win1)\<rparr>,
       fld := (if use_galilean s
               then fld1\<lparr>interp := map (\<lambda>g. shift_grid (v * 0.5 * dt s) (shift_grid (v * 0.5 * dt s) g))
                                      (interp fld1)\<rparr>
               else fld1),
       ptcl := map (\<lambda>p. p\<lparr>sorted_flag := False\<rparr>) (ptcl s),
       time := time s + dt s,
       iteration := iteration s + 1,
       calls := calls s @
         (if show_progress \<and> rank (comm s) = 0 then [Progression_bar i_step N] else []) @
         map (\<lambda>d. Diag_write d (iteration s)) (diags s) @
         (case moving_win (comm s) of None \<Rightarrow> [] | Some w \<Rightarrow> [Comm_move_grids (dt s) (time s)]) @
         [Comm_exchange_fields ''EB''] @
         (if X then map (\<lambda>p. Comm_exchange_particles (sid p) (time s)) (ptcl s) else []) @
         map (\<lambda>p. Species_gather (sid p)) (ptcl s) @
         map (\<lambda>x. Ext_apply_expression x (time s)) (external_fields s) @
         dep ''rho'' ''rho_prev'' @
         map (\<lambda>p. Species_handle_ionization (sid p)) (ptcl s) @
         (if move_momenta then map (\<lambda>p. Species_push_p (sid p)) (ptcl s) else []) @
         halfpush @
         concat (map (\<lambda>a. [Antenna_update_v a (time s + 0.5 * dt s), Antenna_halfpush_x a (dt s)])
                   (laser_antennas s)) @
         dep ''J'' ''J'' @
         halfpush @
         map (\<lambda>a. Antenna_halfpush_x a (dt s)) (laser_antennas s) @
         dep ''rho'' ''rho_next'' @
         (if correct_currents then [Fld_correct_currents] else []) @
         [Comm_damp_guard_EB, Fld_interp2spect ''E'', Fld_interp2spect ''B'', Fld_push use_true_rho] @
         (if correct_divE then [Fld_correct_divE] else []) @
         [Fld_spect2interp ''E'', Fld_spect2interp ''B'']\<rparr>)"
proof (cases "use_galilean s")
  case True
  with gal have v: "v_comoving s = Some v" by simp
  show ?thesis
    unfolding step_iteration_def step_statements_def X_def win1_def fld1_def dep_def halfpush_def
    using ep True v
    by (simp add: guarded_emit call_def emit_def assign_def move_grids_block exchange_block
        deposit_rho deposit_J guarded_shift_True [where v = v] o_def exchange_block_ex
        split del: if_split cong del: if_weak_cong option.case_cong_weak)
next
  case False
  show ?thesis
    unfolding step_iteration_def step_statements_def X_def win1_def fld1_def dep_def halfpush_def
    using ep False
    by (simp add: guarded_emit call_def emit_def assign_def move_grids_block exchange_block
        deposit_rho deposit_J guarded_shift_False o_def exchange_block_ex
        split del: if_split cong del: if_weak_cong option.case_cong_weak)
qed

text \<open>With \<open>exchange_period = 0\<close> the iteration raises at the test of the particle exchange.\<close>

lemma step_iteration_zero_period:
  assumes "exchange_period s = 0"
  shows "step_iteration C N correct_currents correct_divE use_true_rho move_positions move_momenta
           show_progress i_step s =
    (Some ZeroDivisionError,
     s\<lparr>comm := (comm s)\<lparr>moving_win :=
          map_option (\<lambda>w. fst (move_grids C w (fld s) (dt s) (time s))) (moving_win (comm s))\<rparr>,
       fld := (case moving_win (comm s) of None \<Rightarrow> fld s
               | Some w \<Rightarrow> snd (move_grids C w (fld s) (dt s) (time s))),
       calls := calls s @
         (if show_progress \<and> rank (comm s) = 0 then [Progression_bar i_step N] else []) @
         map (\<lambda>d. Diag_write d (iteration s)) (diags s) @
         (case moving_win (comm s) of None \<Rightarrow> [] | Some w \<Rightarrow> [Comm_move_grids (dt s) (time s)]) @
         [Comm_exchange_fields ''EB'']\<rparr>)"
  unfolding step_iteration_def step_statements_def
  using assms
  by (simp add: guarded_emit call_def emit_def move_grids_block raise_def
      split del: if_split cong del: if_weak_cong option.case_cong_weak)

text \<open>
  In a Galilean frame without a comoving velocity the iteration raises at the first
  shift of the boundaries.
\<close>

lemma step_iteration_raises:
  assumes "step_iteration C N correct_currents correct_divE use_true_rho move_positions move_momenta
             show_progress i_step s = (Some err, s1)"
  shows "(exchange_period s = 0 \<and> err = ZeroDivisionError) \<or>
         (use_galilean s \<and> v_comoving s = None)"
proof (rule ccontr)
  assume "\<not> ?thesis"
  then have ep: "exchange_period s \<noteq> 0 \<or> err \<noteq> ZeroDivisionError"
    and gal: "use_galilean s \<longrightarrow> v_comoving s = Some (the (v_comoving s))"
    by auto
  show False
  proof (cases "exchange_period s = 0")
    case True
    then show False
      using assms ep by (simp add: step_iteration_zero_period)
  next
    case False
    from step_iteration_eq [OF False gal] assms show False by simp
  qed
qed

subsection \<open>The deposition\<close>

text \<open>
  Claim C3. For every \<open>fieldtype\<close> other than \<^verbatim>\<open>'rho_prev'\<close>, \<^verbatim>\<open>'rho_next'\<close> and \<^verbatim>\<open>'J'\<close>, \<^verbatim>\<open>deposit\<close>
  raises the error of an unknown field type and leaves the simulation as it was: no
  attribute has changed and no call (erase, deposit, divide, exchange, transform,
  filter) has been made, since the trace of calls is part of the state.
\<close>

theorem deposit_unknown_fieldtype:
  assumes "fieldtype \<notin> {''rho_prev'', ''rho_next'', ''J''}"
  shows "deposit fieldtype s = (Some (ValueError (''Unknown fieldtype: '' @ fieldtype)), s)"
  using assms by (simp add: deposit_def raise_def)

theorem deposit_unknown_fieldtype_witness:
  "deposit ''E'' example_sim = (Some (ValueError ''Unknown fieldtype: E''), example_sim)"
  using deposit_unknown_fieldtype [of "''E''" example_sim] by simp

subsection \<open>The Galilean shift\<close>

lemma shift_grid_twice:
  "shift_grid (v * 0.5 * h) (shift_grid (v * 0.5 * h) g) =
   g\<lparr>zmin := zmin g + v * h, zmax := zmax g + v * h, z := map (\<lambda>x. x + v * h) (z g)\<rparr>"
  by (simp add: shift_grid_def o_def)

text \<open>
  Claim C5. With a comoving velocity \<open>v\<close>, a call of \<^verbatim>\<open>shift_galilean_boundaries\<close> raises
  nothing and leaves the simulation unchanged but for the grids of the modes, in each
  of which \<open>v * 0.5 * dt\<close> has been added to \<open>zmin\<close>, to \<open>zmax\<close> and to every element of \<open>z\<close>
  (the arrays \<open>r\<close> and \<open>Ez\<close> of the grid are as before). In one iteration of \<^verbatim>\<open>step\<close> in a
  Galilean frame the routine is applied twice to the grids that \<^verbatim>\<open>move_grids\<close> left (the
  grids at the start of the iteration when no moving window is attached), which adds
  \<open>v * dt\<close> in all.
\<close>

theorem galilean_shift:
  assumes v: "v_comoving s = Some v"
  shows
    "shift_galilean_boundaries s =
       (None, s\<lparr>fld := (fld s)\<lparr>interp :=
          map (\<lambda>g. g\<lparr>zmin := zmin g + v * 0.5 * dt s,
                       zmax := zmax g + v * 0.5 * dt s,
                       z := map (\<lambda>x. x + v * 0.5 * dt s) (z g)\<rparr>) (interp (fld s))\<rparr>\<rparr>) \<and>
     (use_galilean s \<and> exchange_period s \<noteq> 0 \<longrightarrow>
        (let moved = (case moving_win (comm s) of None \<Rightarrow> fld s
                      | Some w \<Rightarrow> snd (move_grids C w (fld s) (dt s) (time s)));
             s1 = snd (step_iteration C N correct_currents correct_divE use_true_rho
                         move_positions move_momenta show_progress i_step s)
         in interp (fld s1) =
              map (\<lambda>g. shift_grid (v * 0.5 * dt s) (shift_grid (v * 0.5 * dt s) g)) (interp moved) \<and>
            interp (fld s1) =
              map (\<lambda>g. g\<lparr>zmin := zmin g + v * dt s,
                           zmax := zmax g + v * dt s,
                           z := map (\<lambda>x. x + v * dt s) (z g)\<rparr>) (interp moved)))"
proof
  show "shift_galilean_boundaries s =
       (None, s\<lparr>fld := (fld s)\<lparr>interp :=
          map (\<lambda>g. g\<lparr>zmin := zmin g + v * 0.5 * dt s,
                       zmax := zmax g + v * 0.5 * dt s,
                       z := map (\<lambda>x. x + v * 0.5 * dt s) (z g)\<rparr>) (interp (fld s))\<rparr>\<rparr>)"
    unfolding shift_galilean_boundaries_Some [OF v] shift_grid_def ..
next
  show "use_galilean s \<and> exchange_period s \<noteq> 0 \<longrightarrow>
        (let moved = (case moving_win (comm s) of None \<Rightarrow> fld s
                      | Some w \<Rightarrow> snd (move_grids C w (fld s) (dt s) (time s)));
             s1 = snd (step_iteration C N correct_currents correct_divE use_true_rho
                         move_positions move_momenta show_progress i_step s)
         in interp (fld s1) =
              map (\<lambda>g. shift_grid (v * 0.5 * dt s) (shift_grid (v * 0.5 * dt s) g)) (interp moved) \<and>
            interp (fld s1) =
              map (\<lambda>g. g\<lparr>zmin := zmin g + v * dt s,
                           zmax := zmax g + v * dt s,
                           z := map (\<lambda>x. x + v * dt s) (z g)\<rparr>) (interp moved))"
  proof
    assume a: "use_galilean s \<and> exchange_period s \<noteq> 0"
    then have ep: "exchange_period s \<noteq> 0" and g: "use_galilean s" by simp_all
    have gal: "use_galilean s \<longrightarrow> v_comoving s = Some v" using v by simp
    show "let moved = (case moving_win (comm s) of None \<Rightarrow> fld s
                      | Some w \<Rightarrow> snd (move_grids C w (fld s) (dt s) (time s)));
             s1 = snd (step_iteration C N correct_currents correct_divE use_true_rho
                         move_positions move_momenta show_progress i_step s)
         in interp (fld s1) =
              map (\<lambda>g. shift_grid (v * 0.5 * dt s) (shift_grid (v * 0.5 * dt s) g)) (interp moved) \<and>
            interp (fld s1) =
              map (\<lambda>g. g\<lparr>zmin := zmin g + v * dt s,
                           zmax := zmax g + v * dt s,
                           z := map (\<lambda>x. x + v * dt s) (z g)\<rparr>) (interp moved)"
      unfolding Let_def step_iteration_eq [OF ep gal] shift_grid_twice
      using g by simp
  qed
qed

theorem galilean_shift_witness:
  "fst (shift_galilean_boundaries example_sim) = None \<and>
   interp (fld (snd (shift_galilean_boundaries example_sim))) =
     [\<lparr> zmin = 1 / 2, zmax = 9 / 2, z = [3 / 2, 7 / 2], r = [1 / 2, 3 / 2], Ez = [[0, 0], [0, 0]] \<rparr>] \<and>
   interp (fld (snd (step_iteration example_collab 1 True False False True True False 0 example_sim))) =
     [\<lparr> zmin = 2, zmax = 6, z = [2, 4], r = [1 / 2, 3 / 2], Ez = [[0, 0], [0, 0]] \<rparr>]"
proof -
  have v: "v_comoving example_sim = Some 2" by (simp add: example_sim_def)
  have h: "use_galilean example_sim \<and> exchange_period example_sim \<noteq> 0"
    by (simp add: example_sim_def)
  note inst = galilean_shift [OF v, of example_collab 1 True False False True True False 0]
  from inst have one: "shift_galilean_boundaries example_sim =
       (None, example_sim\<lparr>fld := (fld example_sim)\<lparr>interp :=
          map (\<lambda>g. g\<lparr>zmin := zmin g + 2 * 0.5 * dt example_sim,
                       zmax := zmax g + 2 * 0.5 * dt example_sim,
                       z := map (\<lambda>x. x + 2 * 0.5 * dt example_sim) (z g)\<rparr>)
            (interp (fld example_sim))\<rparr>\<rparr>)"
    by (rule conjunct1)
  from inst h have two: "interp (fld (snd (step_iteration example_collab 1 True False False True
        True False 0 example_sim))) =
       map (\<lambda>g. g\<lparr>zmin := zmin g + 2 * dt example_sim,
                    zmax := zmax g + 2 * dt example_sim,
                    z := map (\<lambda>x. x + 2 * dt example_sim) (z g)\<rparr>)
         (interp (case moving_win (comm example_sim) of None \<Rightarrow> fld example_sim
            | Some w \<Rightarrow> snd (move_grids example_collab w (fld example_sim) (dt example_sim)
                              (time example_sim))))"
    unfolding Let_def by blast
  show ?thesis
    unfolding one two
    by (simp add: example_sim_def example_collab_def example_grid_def)
qed

subsection \<open>The calls of one iteration\<close>

lemma count_list_if_mult:
  "count_list (if b then xs else []) e = (if b then 1 else 0) * count_list xs e"
  by simp

lemma set_if: "set (if b then xs else ys) = (if b then set xs else set ys)"
  by simp

lemma mem_if: "(e \<in> (if b then A else B)) = (if b then e \<in> A else e \<in> B)"
  by simp

lemma count_list_map_other:
  "(\<And>x. f x \<noteq> e) \<Longrightarrow> count_list (map f xs) e = 0"
  by (induction xs) simp_all

lemma count_species_halfpush:
  "count_list (map (\<lambda>p. Species_halfpush_x (sid p)) ps) (Species_halfpush_x i) =
   count_list (map sid ps) i"
  by (induction ps) simp_all

lemma count_antenna_halfpush:
  "count_list (map (\<lambda>a. Antenna_halfpush_x a d) as) (Antenna_halfpush_x b d) = count_list as b"
  by (induction as) simp_all

lemma count_antenna_pair_halfpush:
  "count_list (concat (map (\<lambda>a. [Antenna_update_v a t, Antenna_halfpush_x a d]) as))
     (Antenna_halfpush_x b d) = count_list as b"
  by (induction as) simp_all

lemma count_antenna_pair_update:
  "count_list (concat (map (\<lambda>a. [Antenna_update_v a t, Antenna_halfpush_x a d]) as))
     (Antenna_update_v b t) = count_list as b"
  by (induction as) simp_all

lemma gal_Some: "use_galilean s \<longrightarrow> v_comoving s \<noteq> None \<Longrightarrow>
  use_galilean s \<longrightarrow> v_comoving s = Some (the (v_comoving s))"
  by auto

text \<open>
  Claim C4. In an iteration of \<^verbatim>\<open>step\<close> that raises nothing (\<open>exchange_period\<close> is not 0,
  so that the modulo is defined, and a Galilean frame has its velocity), the particles
  of each species are exchanged exactly when \<open>iteration mod exchange_period = 0\<close> or
  \<open>i_step = 0\<close>. A moving window stays attached; after an iteration with exchange its
  counter \<open>nz_inject\<close> is 0; after an iteration without exchange the window is as
  \<^verbatim>\<open>move_grids\<close> left it, so the orchestrator has not reset the counter.
\<close>

theorem particle_exchange_when_due:
  assumes ep: "exchange_period s \<noteq> 0"
    and gal: "use_galilean s \<longrightarrow> v_comoving s \<noteq> None"
    and it: "step_iteration C N correct_currents correct_divE use_true_rho move_positions
               move_momenta show_progress i_step s = (err, s1)"
  shows "err = None \<and>
    (\<forall>p\<in>set (ptcl s).
       (Comm_exchange_particles (sid p) (time s) \<in> set (drop (length (calls s)) (calls s1))) =
       (iteration s mod exchange_period s = 0 \<or> i_step = 0)) \<and>
    ((moving_win (comm s1) = None) = (moving_win (comm s) = None)) \<and>
    (iteration s mod exchange_period s = 0 \<or> i_step = 0 \<longrightarrow>
       (\<forall>w. moving_win (comm s1) = Some w \<longrightarrow> nz_inject w = 0)) \<and>
    (\<not> (iteration s mod exchange_period s = 0 \<or> i_step = 0) \<longrightarrow>
       moving_win (comm s1) =
         map_option (\<lambda>w. fst (move_grids C w (fld s) (dt s) (time s))) (moving_win (comm s)))"
proof -
  note eq = step_iteration_eq [OF ep gal_Some [OF gal], of C N correct_currents correct_divE
      use_true_rho move_positions move_momenta show_progress i_step]
  have s1: "s1 = snd (step_iteration C N correct_currents correct_divE use_true_rho move_positions
               move_momenta show_progress i_step s)"
    and e: "err = fst (step_iteration C N correct_currents correct_divE use_true_rho
               move_positions move_momenta show_progress i_step s)"
    using it by simp_all
  have err: "err = None" unfolding e eq by simp
  have win: "moving_win (comm s1) =
      (if iteration s mod exchange_period s = 0 \<or> i_step = 0
       then map_option (\<lambda>w. w\<lparr>nz_inject := 0\<rparr>)
              (map_option (\<lambda>w. fst (move_grids C w (fld s) (dt s) (time s))) (moving_win (comm s)))
       else map_option (\<lambda>w. fst (move_grids C w (fld s) (dt s) (time s))) (moving_win (comm s)))"
    unfolding s1 eq by (simp split del: if_split cong del: if_weak_cong)
  have ex: "(Comm_exchange_particles (sid p) (time s) \<in> set (drop (length (calls s)) (calls s1))) =
       (iteration s mod exchange_period s = 0 \<or> i_step = 0)" if p: "p \<in> set (ptcl s)" for p
  proof (cases "moving_win (comm s)")
    case None
    from p show ?thesis
      unfolding s1 eq
      by (simp add: None set_if mem_if image_iff split del: if_split cong del: if_weak_cong)
         (auto simp: image_iff)
  next
    case (Some w)
    from p show ?thesis
      unfolding s1 eq
      by (simp add: Some set_if mem_if image_iff split del: if_split cong del: if_weak_cong)
         (auto simp: image_iff)
  qed
  from win have w1: "(moving_win (comm s1) = None) = (moving_win (comm s) = None)"
    by (simp split: if_splits)
  from win have w2: "iteration s mod exchange_period s = 0 \<or> i_step = 0 \<longrightarrow>
       (\<forall>w. moving_win (comm s1) = Some w \<longrightarrow> nz_inject w = 0)"
    by auto
  from win have w3: "\<not> (iteration s mod exchange_period s = 0 \<or> i_step = 0) \<longrightarrow>
       moving_win (comm s1) =
         map_option (\<lambda>w. fst (move_grids C w (fld s) (dt s) (time s))) (moving_win (comm s))"
    by simp
  from ex have ex': "\<forall>p\<in>set (ptcl s).
       (Comm_exchange_particles (sid p) (time s) \<in> set (drop (length (calls s)) (calls s1))) =
       (iteration s mod exchange_period s = 0 \<or> i_step = 0)"
    by simp
  show ?thesis
    by (intro conjI) (fact err, fact ex', fact w1, fact w2, fact w3)
qed

theorem particle_exchange_when_due_witness:
  "Comm_exchange_particles 0 2 \<in> set (calls (snd
      (step_iteration example_collab 2 True False False True True False 0 example_sim))) \<and>
   (\<exists>w. moving_win (comm (snd
      (step_iteration example_collab 2 True False False True True False 0 example_sim))) = Some w \<and>
      nz_inject w = 0) \<and>
   Comm_exchange_particles 0 2 \<notin> set (calls (snd
      (step_iteration example_collab 2 True False False True True False 1 example_sim))) \<and>
   moving_win (comm (snd
      (step_iteration example_collab 2 True False False True True False 1 example_sim))) =
     Some \<lparr> nz_inject = 6 \<rparr>"
proof -
  have ep: "exchange_period example_sim \<noteq> 0" by (simp add: example_sim_def)
  have gal: "use_galilean example_sim \<longrightarrow> v_comoving example_sim \<noteq> None"
    by (simp add: example_sim_def)
  have p: "\<lparr> sid = 0, sorted_flag = True \<rparr> \<in> set (ptcl example_sim)"
    by (simp add: example_sim_def)
  have vals: "time example_sim = 2" "calls example_sim = []" "iteration example_sim = 4"
    "exchange_period example_sim = 3" "dt example_sim = 1 / 2"
    "moving_win (comm example_sim) = Some \<lparr> nz_inject = 5 \<rparr>"
    by (simp_all add: example_sim_def)
  have move: "fst (move_grids example_collab \<lparr> nz_inject = 5 \<rparr> f h t) = \<lparr> nz_inject = 6 \<rparr>" for f h t
    by (simp add: example_collab_def)
  have it0: "step_iteration example_collab 2 True False False True True False 0 example_sim =
      (fst (step_iteration example_collab 2 True False False True True False 0 example_sim),
       snd (step_iteration example_collab 2 True False False True True False 0 example_sim))"
    by simp
  have it1: "step_iteration example_collab 2 True False False True True False 1 example_sim =
      (fst (step_iteration example_collab 2 True False False True True False 1 example_sim),
       snd (step_iteration example_collab 2 True False False True True False 1 example_sim))"
    by simp
  note first = particle_exchange_when_due [OF ep gal it0]
  note second = particle_exchange_when_due [OF ep gal it1]
  from first p have a: "Comm_exchange_particles 0 2 \<in> set (calls (snd
      (step_iteration example_collab 2 True False False True True False 0 example_sim)))"
    by (auto simp: vals)
  from first have b: "\<exists>w. moving_win (comm (snd
      (step_iteration example_collab 2 True False False True True False 0 example_sim))) = Some w \<and>
      nz_inject w = 0"
    by (auto simp: vals)
  from second p have c: "Comm_exchange_particles 0 2 \<notin> set (calls (snd
      (step_iteration example_collab 2 True False False True True False 1 example_sim)))"
    by (auto simp: vals)
  from second have d: "moving_win (comm (snd
      (step_iteration example_collab 2 True False False True True False 1 example_sim))) =
     Some \<lparr> nz_inject = 6 \<rparr>"
    by (simp add: vals move)
  from a b c d show ?thesis by blast
qed

text \<open>
  The claim C9, that the half-pushes of the laser antennas are skipped with
  \<^verbatim>\<open>move_positions=False\<close>, fails: in \<^verbatim>\<open>step\<close> the loops over \<^verbatim>\<open>self.laser_antennas\<close> are outside
  the tests of \<^verbatim>\<open>move_positions\<close>. With positions frozen, the antenna 7 of the example is
  half-pushed twice in an iteration and the species 0 not at all.
\<close>

theorem antenna_pushed_with_positions_frozen:
  "count_list (calls (snd (step_iteration example_collab 1 True False False False True False 0
      example_sim))) (Antenna_halfpush_x 7 (1 / 2)) = 2 \<and>
   count_list (calls (snd (step_iteration example_collab 1 True False False False True False 0
      example_sim))) (Species_halfpush_x 0) = 0"
proof -
  have ep: "exchange_period example_sim \<noteq> 0" by (simp add: example_sim_def)
  have gal: "use_galilean example_sim \<longrightarrow> v_comoving example_sim = Some 2"
    by (simp add: example_sim_def)
  show ?thesis
    unfolding step_iteration_eq [OF ep gal]
    by (simp add: example_sim_def)
qed

text \<open>
  Claim C9, amended. In an iteration of \<^verbatim>\<open>step\<close> that raises nothing, the positions of every
  species are half-pushed twice when \<^verbatim>\<open>move_positions\<close> is true and not at all when it is
  false; the virtual particles of every laser antenna are half-pushed twice, and their
  velocity is updated once at \<open>t + dt / 2\<close>, whether \<^verbatim>\<open>move_positions\<close> is true or false.
  (A species or an antenna that is several times in its list is counted as often.)
\<close>

theorem halfpush_calls:
  assumes ep: "exchange_period s \<noteq> 0"
    and gal: "use_galilean s \<longrightarrow> v_comoving s \<noteq> None"
    and it: "step_iteration C N correct_currents correct_divE use_true_rho move_positions
               move_momenta show_progress i_step s = (err, s1)"
  shows "err = None \<and>
    (\<forall>i. count_list (drop (length (calls s)) (calls s1)) (Species_halfpush_x i) =
           (if move_positions then 2 * count_list (map sid (ptcl s)) i else 0)) \<and>
    (\<forall>a. count_list (drop (length (calls s)) (calls s1)) (Antenna_halfpush_x a (dt s)) =
           2 * count_list (laser_antennas s) a) \<and>
    (\<forall>a. count_list (drop (length (calls s)) (calls s1)) (Antenna_update_v a (time s + 0.5 * dt s)) =
           count_list (laser_antennas s) a)"
proof -
  note eq = step_iteration_eq [OF ep gal_Some [OF gal], of C N correct_currents correct_divE
      use_true_rho move_positions move_momenta show_progress i_step]
  have s1: "s1 = snd (step_iteration C N correct_currents correct_divE use_true_rho move_positions
               move_momenta show_progress i_step s)"
    and e: "err = fst (step_iteration C N correct_currents correct_divE use_true_rho
               move_positions move_momenta show_progress i_step s)"
    using it by simp_all
  have err: "err = None" unfolding e eq by simp
  have sp: "count_list (drop (length (calls s)) (calls s1)) (Species_halfpush_x i) =
           (if move_positions then 2 * count_list (map sid (ptcl s)) i else 0)" for i
    unfolding s1 eq
    by (cases "moving_win (comm s)")
       (simp_all add: count_list_if_mult count_species_halfpush count_list_map_other)
  have ah: "count_list (drop (length (calls s)) (calls s1)) (Antenna_halfpush_x a (dt s)) =
           2 * count_list (laser_antennas s) a" for a
    unfolding s1 eq
    by (cases "moving_win (comm s)")
       (simp_all add: count_list_if_mult count_antenna_halfpush count_antenna_pair_halfpush
          count_list_map_other)
  have au: "count_list (drop (length (calls s)) (calls s1)) (Antenna_update_v a (time s + 0.5 * dt s)) =
           count_list (laser_antennas s) a" for a
    unfolding s1 eq
    using count_antenna_pair_update [of "time s + 0.5 * dt s" "dt s" "laser_antennas s" a]
    by (cases "moving_win (comm s)")
       (simp_all add: count_list_if_mult count_list_map_other)
  from sp have sp': "\<forall>i. count_list (drop (length (calls s)) (calls s1)) (Species_halfpush_x i) =
           (if move_positions then 2 * count_list (map sid (ptcl s)) i else 0)"
    by blast
  from ah have ah': "\<forall>a. count_list (drop (length (calls s)) (calls s1)) (Antenna_halfpush_x a (dt s)) =
           2 * count_list (laser_antennas s) a"
    by blast
  from au have au': "\<forall>a. count_list (drop (length (calls s)) (calls s1))
           (Antenna_update_v a (time s + 0.5 * dt s)) = count_list (laser_antennas s) a"
    by blast
  show ?thesis
    by (intro conjI) (fact err, fact sp', fact ah', fact au')
qed

theorem halfpush_calls_witness:
  "count_list (calls (snd
      (step_iteration example_collab 1 True False False True True False 0 example_sim)))
      (Species_halfpush_x 0) = 2 \<and>
   count_list (calls (snd
      (step_iteration example_collab 1 True False False True True False 0 example_sim)))
      (Antenna_halfpush_x 7 (1 / 2)) = 2 \<and>
   count_list (calls (snd
      (step_iteration example_collab 1 True False False True True False 0 example_sim)))
      (Antenna_update_v 7 (9 / 4)) = 1"
proof -
  have ep: "exchange_period example_sim \<noteq> 0" by (simp add: example_sim_def)
  have gal: "use_galilean example_sim \<longrightarrow> v_comoving example_sim \<noteq> None"
    by (simp add: example_sim_def)
  have vals: "time example_sim = 2" "calls example_sim = []" "dt example_sim = 1 / 2"
    "laser_antennas example_sim = [7]" "map sid (ptcl example_sim) = [0]"
    by (simp_all add: example_sim_def)
  have it0: "step_iteration example_collab 1 True False False True True False 0 example_sim =
      (fst (step_iteration example_collab 1 True False False True True False 0 example_sim),
       snd (step_iteration example_collab 1 True False False True True False 0 example_sim))"
    by simp
  note inst = halfpush_calls [OF ep gal it0]
  from inst have a: "count_list (calls (snd
      (step_iteration example_collab 1 True False False True True False 0 example_sim)))
      (Species_halfpush_x 0) = 2"
    by (simp add: vals)
  from inst have "count_list (calls (snd
      (step_iteration example_collab 1 True False False True True False 0 example_sim)))
      (Antenna_halfpush_x 7 (1 / 2)) = 2 * count_list [7 :: nat] 7"
    unfolding vals by simp
  then have b: "count_list (calls (snd
      (step_iteration example_collab 1 True False False True True False 0 example_sim)))
      (Antenna_halfpush_x 7 (1 / 2)) = 2"
    by simp
  from inst have "count_list (calls (snd
      (step_iteration example_collab 1 True False False True True False 0 example_sim)))
      (Antenna_update_v 7 (2 + 0.5 * (1 / 2))) = count_list [7 :: nat] 7"
    unfolding vals by simp
  then have c: "count_list (calls (snd
      (step_iteration example_collab 1 True False False True True False 0 example_sim)))
      (Antenna_update_v 7 (9 / 4)) = 1"
    by simp
  from a b c show ?thesis by blast
qed

end
